theory Spec2Isabelle
  imports Complex_Main "HOL-Library.Char_ord" "HOL-Library.List_Lexorder"
begin

section \<open>Python values, exceptions and replies\<close>

text \<open>
  The expense tracker (\<^verbatim>\<open>src/main.py\<close>) exposes five tools. Each one builds a single
  request for the Supabase table \<^verbatim>\<open>expenses_test\<close>, executes it, and turns the answer
  (or any exception) into a JSON-serialisable value.

  A cell is a scalar JSON value as it appears in a request or in a returned row. Python
  floats are idealised as reals (no rounding, no NaN or infinity); Python strings are
  \<open>string\<close>s of 8-bit characters, compared by code point.
\<close>

datatype cell = Null | Integer int | Float real | Str string

text \<open>A Python number: an \<^verbatim>\<open>int\<close> or a \<^verbatim>\<open>float\<close>.\<close>

datatype number = IntN int | FloatN real

fun num_val :: "number \<Rightarrow> real" where
  "num_val (IntN i) = of_int i"
| "num_val (FloatN x) = x"

text \<open>A row is a Python dict from column names to cells, keys in insertion order.\<close>

type_synonym row = "(string \<times> cell) list"

text \<open>
  Exceptions of class \<^verbatim>\<open>Exception\<close>, each carrying the text that \<^verbatim>\<open>str(e)\<close> gives.
  \<open>ValueError\<close> stands for the class and its subclasses (what \<^verbatim>\<open>except ValueError\<close>
  catches); \<open>StoreError\<close> is any other exception that the Supabase client raises.
  Signals outside \<^verbatim>\<open>Exception\<close> (\<^verbatim>\<open>KeyboardInterrupt\<close>, \<^verbatim>\<open>SystemExit\<close>) are not errors
  of an operation and are not modelled.
\<close>

datatype exn = ValueError string | KeyError string | TypeError string | StoreError string

fun str_exn :: "exn \<Rightarrow> string" where
  "str_exn (ValueError m) = m"
| "str_exn (KeyError m) = m"
| "str_exn (TypeError m) = m"
| "str_exn (StoreError m) = m"

text \<open>
  One entry of the list that \<^verbatim>\<open>summarize\<close> returns: a dict with the keys
  \<^verbatim>\<open>"category"\<close>, \<^verbatim>\<open>"total_amount"\<close> and \<^verbatim>\<open>"count"\<close>.
\<close>

record entry =
  entry_category :: cell
  total_amount :: number
  count :: int

text \<open>
  The values the tools return:
  \<^item> \<open>Error m\<close> is \<^verbatim>\<open>{"status": "error", "message": m}\<close>;
  \<^item> \<open>Added i m r\<close> is \<^verbatim>\<open>{"status": "success", "id": i, "message": m, "data": r}\<close>;
  \<^item> \<open>Rows rs\<close> is the bare list of rows of \<^verbatim>\<open>list_expenses\<close>;
  \<^item> \<open>Summary es\<close> is the bare list of entries of \<^verbatim>\<open>summarize\<close>;
  \<^item> \<open>Deleted m\<close> is \<^verbatim>\<open>{"status": "success", "message": m}\<close>;
  \<^item> \<open>Updated m rs\<close> is \<^verbatim>\<open>{"status": "success", "message": m, "data": rs}\<close>.
\<close>

datatype reply =
    Error string
  | Added cell string row
  | Rows "row list"
  | Summary "entry list"
  | Deleted string
  | Updated string "row list"

text \<open>A call of a tool either returns a reply or lets an exception escape.\<close>

datatype outcome = Returned reply | Raised exn

fun is_error :: "reply \<Rightarrow> bool" where
  "is_error (Error m) = True"
| "is_error _ = False"

fun is_added :: "reply \<Rightarrow> bool" where
  "is_added (Added i m r) = True"
| "is_added _ = False"

fun is_rows :: "reply \<Rightarrow> bool" where
  "is_rows (Rows rs) = True"
| "is_rows _ = False"

fun is_summary :: "reply \<Rightarrow> bool" where
  "is_summary (Summary es) = True"
| "is_summary _ = False"

fun is_deleted :: "reply \<Rightarrow> bool" where
  "is_deleted (Deleted m) = True"
| "is_deleted _ = False"

fun is_updated :: "reply \<Rightarrow> bool" where
  "is_updated (Updated m rs) = True"
| "is_updated _ = False"

section \<open>Text of Python values\<close>

text \<open>\<^verbatim>\<open>str(n)\<close> of an integer, as the f-strings of the confirmation messages print it.\<close>

definition digit_char :: "nat \<Rightarrow> char" where
  "digit_char n = char_of (48 + n)"

function digits :: "nat \<Rightarrow> string" where
  "digits n = (if n < 10 then [digit_char n] else digits (n div 10) @ [digit_char (n mod 10)])"
  by pat_completeness auto
termination
  by (relation "measure (\<lambda>n. n)") auto

declare digits.simps [simp del]

definition show_int :: "int \<Rightarrow> string" where
  "show_int i = (if i < 0 then CHR ''-'' # digits (nat (- i)) else digits (nat i))"

text \<open>
  \<^verbatim>\<open>repr(s)\<close> of a string: single quotes unless the string has a single and no double
  quote; the quote and the backslash are escaped, tab, newline and carriage return get
  their letter, every other non-printable character is written \<^verbatim>\<open>\xNN\<close>.
\<close>

definition backslash :: char where
  "backslash = char_of (92::nat)"

definition hex_digit :: "nat \<Rightarrow> char" where
  "hex_digit n = (if n < 10 then char_of (48 + n) else char_of (87 + n))"

definition printable :: "char \<Rightarrow> bool" where
  "printable c = (let n = (of_char c :: nat) in (32 \<le> n \<and> n < 127) \<or> (161 \<le> n \<and> n \<noteq> 173))"

definition repr_char :: "char \<Rightarrow> char \<Rightarrow> string" where
  "repr_char q c =
     (if c = q \<or> c = backslash then [backslash, c]
      else if c = char_of (9::nat) then [backslash, CHR ''t'']
      else if c = char_of (10::nat) then [backslash, CHR ''n'']
      else if c = char_of (13::nat) then [backslash, CHR ''r'']
      else if printable c then [c]
      else [backslash, CHR ''x'', hex_digit (of_char c div 16), hex_digit (of_char c mod 16)])"

definition py_repr :: "string \<Rightarrow> string" where
  "py_repr s =
     (let q = (if CHR 0x27 \<in> set s \<and> CHR 0x22 \<notin> set s then CHR 0x22 else CHR 0x27)
      in q # concat (map (repr_char q) s) @ [q])"

section \<open>Date validation\<close>

text \<open>
  \<^verbatim>\<open>datetime.strptime(date, "%Y-%m-%d")\<close> is a library call. CPython turns the format
  into the regular expression
  \<^verbatim>\<open>(\d\d\d\d)-(1[0-2]|0[1-9]|[1-9])-(3[0-1]|[1-2]\d|0[1-9]|[1-9]| [1-9])\<close>,
  matches it against the start of the string (alternatives tried from the left, with
  backtracking), rejects the input when the match does not consume the whole string, and
  then builds the date, which fails for year 0 and for a day the month does not have
  (the texts of the exceptions are those of CPython 3.12). Each matcher below returns,
  in the order the regular expression engine tries them, the ways to match a prefix: the
  value read and the rest of the string.
\<close>

definition is_digit :: "char \<Rightarrow> bool" where
  "is_digit c = (CHR ''0'' \<le> c \<and> c \<le> CHR ''9'')"

definition in_range :: "char \<Rightarrow> char \<Rightarrow> char \<Rightarrow> bool" where
  "in_range lo hi c = (lo \<le> c \<and> c \<le> hi)"

definition digit_val :: "char \<Rightarrow> nat" where
  "digit_val c = of_char c - 48"

fun match_year :: "string \<Rightarrow> (nat \<times> string) list" where
  "match_year (a # b # c # d # rest) =
     (if is_digit a \<and> is_digit b \<and> is_digit c \<and> is_digit d
      then [(1000 * digit_val a + 100 * digit_val b + 10 * digit_val c + digit_val d, rest)]
      else [])"
| "match_year _ = []"

fun match_dash :: "string \<Rightarrow> string list" where
  "match_dash (c # rest) = (if c = CHR ''-'' then [rest] else [])"
| "match_dash [] = []"

text \<open>
  Two characters \<open>a b\<close> with \<open>p a\<close> and \<open>q b\<close>, read as a number (\<^verbatim>\<open>int\<close> skips a
  leading blank); one character \<open>a\<close> with \<open>p a\<close>.
\<close>

fun two_chars :: "(char \<Rightarrow> bool) \<Rightarrow> (char \<Rightarrow> bool) \<Rightarrow> string \<Rightarrow> (nat \<times> string) list" where
  "two_chars p q (a # b # rest) =
     (if p a \<and> q b then [(10 * (if a = CHR '' '' then 0 else digit_val a) + digit_val b, rest)] else [])"
| "two_chars p q _ = []"

fun one_char :: "(char \<Rightarrow> bool) \<Rightarrow> string \<Rightarrow> (nat \<times> string) list" where
  "one_char p (a # rest) = (if p a then [(digit_val a, rest)] else [])"
| "one_char p [] = []"

definition match_month :: "string \<Rightarrow> (nat \<times> string) list" where
  "match_month s =
     two_chars (\<lambda>c. c = CHR ''1'') (in_range CHR ''0'' CHR ''2'') s
   @ two_chars (\<lambda>c. c = CHR ''0'') (in_range CHR ''1'' CHR ''9'') s
   @ one_char (in_range CHR ''1'' CHR ''9'') s"

definition match_day :: "string \<Rightarrow> (nat \<times> string) list" where
  "match_day s =
     two_chars (\<lambda>c. c = CHR ''3'') (in_range CHR ''0'' CHR ''1'') s
   @ two_chars (in_range CHR ''1'' CHR ''2'') is_digit s
   @ two_chars (\<lambda>c. c = CHR ''0'') (in_range CHR ''1'' CHR ''9'') s
   @ one_char (in_range CHR ''1'' CHR ''9'') s
   @ two_chars (\<lambda>c. c = CHR '' '') (in_range CHR ''1'' CHR ''9'') s"

definition match_format :: "string \<Rightarrow> (nat \<times> nat \<times> nat \<times> string) list" where
  "match_format s =
     concat (map (\<lambda>(y, r0).
       concat (map (\<lambda>r1.
         concat (map (\<lambda>(m, r2).
           concat (map (\<lambda>r3.
             map (\<lambda>(d, r4). (y, m, d, r4)) (match_day r3))
           (match_dash r2)))
         (match_month r1)))
       (match_dash r0)))
     (match_year s))"

definition is_leap :: "nat \<Rightarrow> bool" where
  "is_leap y = (y mod 4 = 0 \<and> (y mod 100 \<noteq> 0 \<or> y mod 400 = 0))"

definition days_in_month :: "nat \<Rightarrow> nat \<Rightarrow> nat" where
  "days_in_month y m =
     (if m = 2 then (if is_leap y then 29 else 28)
      else if m = 4 \<or> m = 6 \<or> m = 9 \<or> m = 11 then 30 else 31)"

definition strptime :: "string \<Rightarrow> exn + (nat \<times> nat \<times> nat)" where
  "strptime s =
     (case match_format s of
        [] \<Rightarrow> Inl (ValueError (''time data '' @ py_repr s @ '' does not match format ''
                                @ py_repr ''%Y-%m-%d''))
      | (y, m, d, rest) # _ \<Rightarrow>
          if rest \<noteq> [] then Inl (ValueError (''unconverted data remains: '' @ rest))
          else if y = 0 then Inl (ValueError ''year 0 is out of range'')
          else if days_in_month y m < d then Inl (ValueError ''day is out of range for month'')
          else Inr (y, m, d))"

section \<open>Requests to the store\<close>

text \<open>
  The Supabase client is a dependency of the program, not part of it. A request is what
  the query builder has collected when \<^verbatim>\<open>.execute()\<close> is called: the table, and
  \<^item> for \<^verbatim>\<open>insert(data)\<close> the new row;
  \<^item> for \<^verbatim>\<open>select(columns)\<close> the columns, the filters, and the \<^verbatim>\<open>order\<close> keys, each
    with its \<^verbatim>\<open>desc\<close> flag;
  \<^item> for \<^verbatim>\<open>update(data)\<close> the new cells and the filters;
  \<^item> for \<^verbatim>\<open>delete()\<close> the filters.
  The store is a function \<open>exec\<close> from a request and the state of the store to the
  answer (\<^verbatim>\<open>result.data\<close>, or the exception raised) and the new state of the store. The
  operations take it as their first argument, in place of the module's global
  \<^verbatim>\<open>supabase\<close>.
\<close>

datatype cond = Gte string cell | Lte string cell | Eq string cell

datatype request =
    Insert string row
  | Select string "string list" "cond list" "(string \<times> bool) list"
  | Update string row "cond list"
  | Delete string "cond list"

type_synonym 'st store_client = "request \<Rightarrow> 'st \<Rightarrow> (exn + row list) \<times> 'st"

text \<open>\<^verbatim>\<open>d[k]\<close> on a dict: the value, or \<^verbatim>\<open>KeyError(k)\<close>, whose text is \<^verbatim>\<open>repr(k)\<close>.\<close>

definition getitem :: "row \<Rightarrow> string \<Rightarrow> exn + cell" where
  "getitem d k = (case map_of d k of None \<Rightarrow> Inl (KeyError (py_repr k)) | Some v \<Rightarrow> Inr v)"

text \<open>
  A \<^verbatim>\<open>try\<close> statement. The block ends with the value it returns or with an exception; the
  \<^verbatim>\<open>except\<close> clauses are tried in order, each with the class it catches and the value its
  body returns. An exception that no clause catches leaves the function.
\<close>

type_synonym clause = "(exn \<Rightarrow> bool) \<times> (exn \<Rightarrow> reply)"

fun handle :: "clause list \<Rightarrow> exn \<Rightarrow> outcome" where
  "handle [] x = Raised x"
| "handle ((catches, body) # clauses) x =
     (if catches x then Returned (body x) else handle clauses x)"

definition try_except :: "(exn + reply) \<times> 'st \<Rightarrow> clause list \<Rightarrow> outcome \<times> 'st" where
  "try_except block clauses =
     (case block of
        (Inr r, s) \<Rightarrow> (Returned r, s)
      | (Inl x, s) \<Rightarrow> (handle clauses x, s))"

text \<open>
  \<^verbatim>\<open>except ValueError\<close> catches the exceptions of that class, \<^verbatim>\<open>except Exception\<close> every
  exception of the model.
\<close>

definition is_ValueError :: "exn \<Rightarrow> bool" where
  "is_ValueError x = (case x of ValueError m \<Rightarrow> True | _ \<Rightarrow> False)"

definition is_Exception :: "exn \<Rightarrow> bool" where
  "is_Exception x = True"

section \<open>add_expense\<close>

text \<open>
  The \<^verbatim>\<open>try\<close> block of \<^verbatim>\<open>add_expense\<close>. The tool receives \<^verbatim>\<open>amount\<close> as a float, on which
  \<^verbatim>\<open>float(amount)\<close> is the identity.
\<close>

definition add_expense_try ::
  "'st store_client \<Rightarrow> 'st \<Rightarrow> string \<Rightarrow> real \<Rightarrow> string \<Rightarrow> string \<Rightarrow> string
     \<Rightarrow> (exn + reply) \<times> 'st" where
  "add_expense_try exec s date amount category subcategory note =
     (case strptime date of
        Inl e \<Rightarrow> (Inl e, s)
      | Inr _ \<Rightarrow>
          (let data = [(''date'', Str date), (''amount'', Float amount),
                       (''category'', Str category), (''subcategory'', Str subcategory),
                       (''note'', Str note)]
           in case exec (Insert ''expenses_test'' data) s of
                (Inl e, s') \<Rightarrow> (Inl e, s')
              | (Inr rows, s') \<Rightarrow>
                  (case rows of
                     [] \<Rightarrow> (Inr (Error ''Failed to add expense''), s')
                   | r # _ \<Rightarrow>
                       (case getitem r ''id'' of
                          Inl e \<Rightarrow> (Inl e, s')
                        | Inr expense_id \<Rightarrow>
                            (Inr (Added expense_id ''Expense added successfully'' r), s')))))"

definition add_expense ::
  "'st store_client \<Rightarrow> 'st \<Rightarrow> string \<Rightarrow> real \<Rightarrow> string \<Rightarrow> string \<Rightarrow> string
     \<Rightarrow> outcome \<times> 'st" where
  "add_expense exec s date amount category subcategory note =
     try_except (add_expense_try exec s date amount category subcategory note)
       [(is_ValueError, \<lambda>e. Error (''Invalid date format. Use YYYY-MM-DD: '' @ str_exn e)),
        (is_Exception, \<lambda>e. Error (''Database error: '' @ str_exn e))]"

section \<open>list_expenses\<close>

definition list_columns :: "string list" where
  "list_columns = [''id'', ''date'', ''amount'', ''category'', ''subcategory'', ''note'']"

definition list_request :: "string \<Rightarrow> string \<Rightarrow> request" where
  "list_request start_date end_date =
     Select ''expenses_test'' list_columns
       [Gte ''date'' (Str start_date), Lte ''date'' (Str end_date)]
       [(''date'', True), (''id'', True)]"

definition list_expenses_try ::
  "'st store_client \<Rightarrow> 'st \<Rightarrow> string \<Rightarrow> string \<Rightarrow> (exn + reply) \<times> 'st" where
  "list_expenses_try exec s start_date end_date =
     (case exec (list_request start_date end_date) s of
        (Inl e, s') \<Rightarrow> (Inl e, s')
      | (Inr rows, s') \<Rightarrow> (Inr (Rows rows), s'))"

definition list_expenses :: "'st store_client \<Rightarrow> 'st \<Rightarrow> string \<Rightarrow> string \<Rightarrow> outcome \<times> 'st" where
  "list_expenses exec s start_date end_date =
     try_except (list_expenses_try exec s start_date end_date)
       [(is_Exception, \<lambda>e. Error (''Error listing expenses: '' @ str_exn e))]"

section \<open>summarize\<close>

text \<open>
  Equality of dict keys: Python compares an \<^verbatim>\<open>int\<close> and a \<^verbatim>\<open>float\<close> by value, every
  other pair of cells of different types is unequal.
\<close>

fun py_eq :: "cell \<Rightarrow> cell \<Rightarrow> bool" where
  "py_eq (Integer a) (Float b) = (of_int a = b)"
| "py_eq (Float a) (Integer b) = (a = of_int b)"
| "py_eq a b = (a = b)"

fun type_name :: "cell \<Rightarrow> string" where
  "type_name Null = ''NoneType''"
| "type_name (Integer i) = ''int''"
| "type_name (Float x) = ''float''"
| "type_name (Str t) = ''str''"

text \<open>\<^verbatim>\<open>total += amount\<close>, where \<^verbatim>\<open>total\<close> is a number: \<^verbatim>\<open>TypeError\<close> unless \<^verbatim>\<open>amount\<close> is one.\<close>

fun py_iadd :: "number \<Rightarrow> cell \<Rightarrow> exn + number" where
  "py_iadd (IntN a) (Integer b) = Inr (IntN (a + b))"
| "py_iadd (IntN a) (Float b) = Inr (FloatN (of_int a + b))"
| "py_iadd (FloatN a) (Integer b) = Inr (FloatN (a + of_int b))"
| "py_iadd (FloatN a) (Float b) = Inr (FloatN (a + b))"
| "py_iadd t v =
     Inl (TypeError (''unsupported operand type(s) for +=: ''
        @ py_repr (case t of IntN _ \<Rightarrow> ''int'' | FloatN _ \<Rightarrow> ''float'')
        @ '' and '' @ py_repr (type_name v)))"

text \<open>
  The dict \<^verbatim>\<open>summary\<close>: categories in the order of their first row, each with its entry.
\<close>

type_synonym summary = "(cell \<times> entry) list"

text \<open>The two \<^verbatim>\<open>+=\<close> of the loop body on the entry of one category.\<close>

definition bump :: "cell \<Rightarrow> entry \<Rightarrow> exn + entry" where
  "bump amount e =
     (case py_iadd (total_amount e) amount of
        Inl x \<Rightarrow> Inl x
      | Inr t \<Rightarrow> Inr (e\<lparr>total_amount := t, count := count e + 1\<rparr>))"

text \<open>
  The loop body after the two reads: a category that is not in \<^verbatim>\<open>summary\<close> gets a new
  entry with total 0 and count 0 at the end of the dict; then the entry of the category
  is bumped.
\<close>

fun record_expense :: "cell \<Rightarrow> cell \<Rightarrow> summary \<Rightarrow> exn + summary" where
  "record_expense cat amount [] =
     (case bump amount \<lparr>entry_category = cat, total_amount = IntN 0, count = 0\<rparr> of
        Inl x \<Rightarrow> Inl x
      | Inr e \<Rightarrow> Inr [(cat, e)])"
| "record_expense cat amount ((k, e) # rest) =
     (if py_eq k cat
      then (case bump amount e of Inl x \<Rightarrow> Inl x | Inr e' \<Rightarrow> Inr ((k, e') # rest))
      else (case record_expense cat amount rest of
              Inl x \<Rightarrow> Inl x
            | Inr rest' \<Rightarrow> Inr ((k, e) # rest')))"

fun group_expenses :: "summary \<Rightarrow> row list \<Rightarrow> exn + summary" where
  "group_expenses summary [] = Inr summary"
| "group_expenses summary (expense # rest) =
     (case getitem expense ''category'' of
        Inl x \<Rightarrow> Inl x
      | Inr cat \<Rightarrow>
          (case getitem expense ''amount'' of
             Inl x \<Rightarrow> Inl x
           | Inr amount \<Rightarrow>
               (case record_expense cat amount summary of
                  Inl x \<Rightarrow> Inl x
                | Inr summary' \<Rightarrow> group_expenses summary' rest)))"

text \<open>
  \<^verbatim>\<open>sorted\<close> is stable, also with \<^verbatim>\<open>reverse=True\<close>: the result is the one list that is
  ordered by the key and keeps elements of equal key in their order. Insertion from the
  right, before the first element that may follow, computes that list. \<open>le a b\<close> says
  that \<open>a\<close> may stand before \<open>b\<close>.
\<close>

fun insort_by :: "('a \<Rightarrow> 'a \<Rightarrow> bool) \<Rightarrow> 'a \<Rightarrow> 'a list \<Rightarrow> 'a list" where
  "insort_by le x [] = [x]"
| "insort_by le x (y # ys) = (if le x y then x # y # ys else y # insort_by le x ys)"

definition sort_by :: "('a \<Rightarrow> 'a \<Rightarrow> bool) \<Rightarrow> 'a list \<Rightarrow> 'a list" where
  "sort_by le xs = foldr (insort_by le) xs []"

definition total_desc :: "entry \<Rightarrow> entry \<Rightarrow> bool" where
  "total_desc a b = (num_val (total_amount b) \<le> num_val (total_amount a))"

text \<open>\<^verbatim>\<open>if category:\<close> holds for a string that is not empty, not for \<^verbatim>\<open>None\<close> or \<^verbatim>\<open>""\<close>.\<close>

definition summarize_request :: "string \<Rightarrow> string \<Rightarrow> string option \<Rightarrow> request" where
  "summarize_request start_date end_date category =
     Select ''expenses_test'' [''category'', ''amount'']
       ([Gte ''date'' (Str start_date), Lte ''date'' (Str end_date)]
        @ (case category of
             None \<Rightarrow> []
           | Some c \<Rightarrow> if c \<noteq> [] then [Eq ''category'' (Str c)] else []))
       []"

definition summarize_try ::
  "'st store_client \<Rightarrow> 'st \<Rightarrow> string \<Rightarrow> string \<Rightarrow> string option \<Rightarrow> (exn + reply) \<times> 'st" where
  "summarize_try exec s start_date end_date category =
     (case exec (summarize_request start_date end_date category) s of
        (Inl x, s') \<Rightarrow> (Inl x, s')
      | (Inr rows, s') \<Rightarrow>
          (case group_expenses [] rows of
             Inl x \<Rightarrow> (Inl x, s')
           | Inr summary \<Rightarrow> (Inr (Summary (sort_by total_desc (map snd summary))), s')))"

definition summarize ::
  "'st store_client \<Rightarrow> 'st \<Rightarrow> string \<Rightarrow> string \<Rightarrow> string option \<Rightarrow> outcome \<times> 'st" where
  "summarize exec s start_date end_date category =
     try_except (summarize_try exec s start_date end_date category)
       [(is_Exception, \<lambda>e. Error (''Error summarizing expenses_test: '' @ str_exn e))]"

section \<open>delete_expense\<close>

definition delete_expense_try ::
  "'st store_client \<Rightarrow> 'st \<Rightarrow> int \<Rightarrow> (exn + reply) \<times> 'st" where
  "delete_expense_try exec s expense_id =
     (case exec (Delete ''expenses_test'' [Eq ''id'' (Integer expense_id)]) s of
        (Inl x, s') \<Rightarrow> (Inl x, s')
      | (Inr rows, s') \<Rightarrow>
          (Inr (Deleted (''Expense '' @ show_int expense_id @ '' deleted successfully'')), s'))"

definition delete_expense :: "'st store_client \<Rightarrow> 'st \<Rightarrow> int \<Rightarrow> outcome \<times> 'st" where
  "delete_expense exec s expense_id =
     try_except (delete_expense_try exec s expense_id)
       [(is_Exception, \<lambda>e. Error (''Error deleting expense: '' @ str_exn e))]"

section \<open>update_expense\<close>

text \<open>
  The dict \<^verbatim>\<open>update_data\<close>: one key for each argument that is not \<^verbatim>\<open>None\<close>, in the order
  of the five \<^verbatim>\<open>if\<close>s. Only the first one can raise, when the date does not parse.
\<close>

definition update_data ::
  "string option \<Rightarrow> real option \<Rightarrow> string option \<Rightarrow> string option \<Rightarrow> string option
     \<Rightarrow> exn + row" where
  "update_data date amount category subcategory note =
     (case (case date of
              None \<Rightarrow> Inr []
            | Some d \<Rightarrow> (case strptime d of Inl x \<Rightarrow> Inl x | Inr _ \<Rightarrow> Inr [(''date'', Str d)])) of
        Inl x \<Rightarrow> Inl x
      | Inr d0 \<Rightarrow>
          Inr (d0
             @ (case amount of None \<Rightarrow> [] | Some a \<Rightarrow> [(''amount'', Float a)])
             @ (case category of None \<Rightarrow> [] | Some c \<Rightarrow> [(''category'', Str c)])
             @ (case subcategory of None \<Rightarrow> [] | Some c \<Rightarrow> [(''subcategory'', Str c)])
             @ (case note of None \<Rightarrow> [] | Some n \<Rightarrow> [(''note'', Str n)])))"

definition update_expense_try ::
  "'st store_client \<Rightarrow> 'st \<Rightarrow> int \<Rightarrow> string option \<Rightarrow> real option \<Rightarrow> string option
     \<Rightarrow> string option \<Rightarrow> string option \<Rightarrow> (exn + reply) \<times> 'st" where
  "update_expense_try exec s expense_id date amount category subcategory note =
     (case update_data date amount category subcategory note of
        Inl x \<Rightarrow> (Inl x, s)
      | Inr data \<Rightarrow>
          if data = [] then (Inr (Error ''No fields to update''), s)
          else (case exec (Update ''expenses_test'' data [Eq ''id'' (Integer expense_id)]) s of
                  (Inl x, s') \<Rightarrow> (Inl x, s')
                | (Inr rows, s') \<Rightarrow>
                    (Inr (Updated (''Expense '' @ show_int expense_id @ '' updated successfully'')
                            rows), s')))"

definition update_expense ::
  "'st store_client \<Rightarrow> 'st \<Rightarrow> int \<Rightarrow> string option \<Rightarrow> real option \<Rightarrow> string option
     \<Rightarrow> string option \<Rightarrow> string option \<Rightarrow> outcome \<times> 'st" where
  "update_expense exec s expense_id date amount category subcategory note =
     try_except (update_expense_try exec s expense_id date amount category subcategory note)
       [(is_ValueError, \<lambda>e. Error (''Invalid date format. Use YYYY-MM-DD: '' @ str_exn e)),
        (is_Exception, \<lambda>e. Error (''Error updating expense: '' @ str_exn e))]"

section \<open>The store\<close>

text \<open>
  Modelled from the spec: the remote store (the Supabase service behind the client) is
  not in the repository. The spec's store contract gives one table with the columns
  \<^verbatim>\<open>id, date, amount, category, subcategory, note, created_at\<close>, insert-one returning
  the inserted row with its assigned \<^verbatim>\<open>id\<close> and \<^verbatim>\<open>created_at\<close>, select with range and
  equality conditions, ordering and column projection, update by condition returning the
  affected rows, and delete by condition; any call may fail. The column types are those
  of the table definition in the docstring of \<^verbatim>\<open>init_db\<close>; text is compared by code
  point.
\<close>

record expense =
  e_id :: int
  e_date :: string
  e_amount :: real
  e_category :: string
  e_subcategory :: string
  e_note :: string
  e_created_at :: string

text \<open>
  The state of the store: the rows of the table in the order a scan without ordering
  visits them, the next value of the \<^verbatim>\<open>id\<close> sequence, the server's clock, the error with
  which every call fails while the store is out of order, and the requests received.
\<close>

record store =
  expenses :: "expense list"
  next_id :: int
  now :: string
  fault :: "exn option"
  requests :: "request list"

definition columns :: "string list" where
  "columns = [''id'', ''date'', ''amount'', ''category'', ''subcategory'', ''note'', ''created_at'']"

definition get_col :: "string \<Rightarrow> expense \<Rightarrow> cell" where
  "get_col c e =
     (if c = ''id'' then Integer (e_id e)
      else if c = ''date'' then Str (e_date e)
      else if c = ''amount'' then Float (e_amount e)
      else if c = ''category'' then Str (e_category e)
      else if c = ''subcategory'' then Str (e_subcategory e)
      else if c = ''note'' then Str (e_note e)
      else if c = ''created_at'' then Str (e_created_at e)
      else Null)"

definition to_row :: "string list \<Rightarrow> expense \<Rightarrow> row" where
  "to_row cols e = map (\<lambda>c. (c, get_col c e)) cols"

text \<open>A cell fits a column when the column's type can hold it.\<close>

definition fits :: "string \<Rightarrow> cell \<Rightarrow> bool" where
  "fits c v =
     (case v of
        Null \<Rightarrow> False
      | Integer i \<Rightarrow> c = ''id'' \<or> c = ''amount''
      | Float x \<Rightarrow> c = ''amount''
      | Str t \<Rightarrow> c = ''date'' \<or> c = ''category'' \<or> c = ''subcategory'' \<or> c = ''note''
                 \<or> c = ''created_at'')"

fun cell_le :: "cell \<Rightarrow> cell \<Rightarrow> bool" where
  "cell_le (Str a) (Str b) = (a \<le> b)"
| "cell_le (Integer a) (Integer b) = (a \<le> b)"
| "cell_le (Integer a) (Float b) = (of_int a \<le> b)"
| "cell_le (Float a) (Integer b) = (a \<le> of_int b)"
| "cell_le (Float a) (Float b) = (a \<le> b)"
| "cell_le _ _ = False"

fun cond_ok :: "cond \<Rightarrow> bool" where
  "cond_ok (Gte c v) = fits c v"
| "cond_ok (Lte c v) = fits c v"
| "cond_ok (Eq c v) = fits c v"

fun sat :: "cond \<Rightarrow> expense \<Rightarrow> bool" where
  "sat (Gte c v) e = cell_le v (get_col c e)"
| "sat (Lte c v) e = cell_le (get_col c e) v"
| "sat (Eq c v) e = (cell_le v (get_col c e) \<and> cell_le (get_col c e) v)"

definition matching :: "cond list \<Rightarrow> expense \<Rightarrow> bool" where
  "matching conds e = list_all (\<lambda>f. sat f e) conds"

text \<open>
  \<open>before keys a b\<close>: under the order keys, row \<open>a\<close> may stand before row \<open>b\<close>. The
  first key on which the rows differ decides; rows equal on every key may stand either way.
\<close>

fun before :: "(string \<times> bool) list \<Rightarrow> expense \<Rightarrow> expense \<Rightarrow> bool" where
  "before [] a b = True"
| "before ((c, desc) # keys) a b =
     (if cell_le (get_col c a) (get_col c b) \<and> cell_le (get_col c b) (get_col c a)
      then before keys a b
      else if desc then cell_le (get_col c b) (get_col c a)
      else cell_le (get_col c a) (get_col c b))"

definition put_col :: "string \<Rightarrow> cell \<Rightarrow> expense \<Rightarrow> expense" where
  "put_col c v e =
     (case v of
        Null \<Rightarrow> e
      | Integer i \<Rightarrow>
          if c = ''id'' then e\<lparr>e_id := i\<rparr>
          else if c = ''amount'' then e\<lparr>e_amount := of_int i\<rparr>
          else e
      | Float x \<Rightarrow> if c = ''amount'' then e\<lparr>e_amount := x\<rparr> else e
      | Str t \<Rightarrow>
          if c = ''date'' then e\<lparr>e_date := t\<rparr>
          else if c = ''category'' then e\<lparr>e_category := t\<rparr>
          else if c = ''subcategory'' then e\<lparr>e_subcategory := t\<rparr>
          else if c = ''note'' then e\<lparr>e_note := t\<rparr>
          else if c = ''created_at'' then e\<lparr>e_created_at := t\<rparr>
          else e)"

fun apply_data :: "row \<Rightarrow> expense \<Rightarrow> expense" where
  "apply_data [] e = e"
| "apply_data ((c, v) # rest) e = apply_data rest (put_col c v e)"

definition data_ok :: "row \<Rightarrow> bool" where
  "data_ok data = list_all (\<lambda>(c, v). fits c v) data"

text \<open>
  Modelled from the spec: insert-one. The row gets the next \<^verbatim>\<open>id\<close> of the sequence and the
  clock's \<^verbatim>\<open>created_at\<close>, \<^verbatim>\<open>subcategory\<close> and \<^verbatim>\<open>note\<close> default to the empty string, the
  other three columns are required. The sequence advances also when the primary key
  rejects the row.
\<close>

definition run_insert :: "row \<Rightarrow> store \<Rightarrow> (exn + row list) \<times> store" where
  "run_insert data s =
     (if \<not> data_ok data then (Inl (StoreError ''invalid input for column''), s)
      else if map_of data ''date'' = None \<or> map_of data ''amount'' = None
              \<or> map_of data ''category'' = None
      then (Inl (StoreError ''null value violates not-null constraint''), s)
      else
        (let e = apply_data data
                   \<lparr>e_id = next_id s, e_date = [], e_amount = 0, e_category = [],
                    e_subcategory = [], e_note = [], e_created_at = now s\<rparr>;
             s1 = s\<lparr>next_id := next_id s + 1\<rparr>
         in if e_id e \<in> set (map e_id (expenses s))
            then (Inl (StoreError ''duplicate key value violates unique constraint''), s1)
            else (Inr [to_row columns e], s1\<lparr>expenses := expenses s @ [e]\<rparr>)))"

text \<open>
  Modelled from the spec: select. The rows that satisfy every condition, ordered by the
  keys (in scan order when there is none), each projected to the requested columns.
\<close>

definition run_select ::
  "string list \<Rightarrow> cond list \<Rightarrow> (string \<times> bool) list \<Rightarrow> store \<Rightarrow> (exn + row list) \<times> store" where
  "run_select cols conds keys s =
     (if \<not> list_all (\<lambda>c. c \<in> set columns) (cols @ map fst keys)
      then (Inl (StoreError ''column does not exist''), s)
      else if \<not> list_all cond_ok conds then (Inl (StoreError ''invalid input for column''), s)
      else (Inr (map (to_row cols) (sort_by (before keys) (filter (matching conds) (expenses s)))),
            s))"

text \<open>
  Modelled from the spec: update by condition, returning the affected rows. Rows that do
  not satisfy the conditions are left as they are.
\<close>

definition run_update :: "row \<Rightarrow> cond list \<Rightarrow> store \<Rightarrow> (exn + row list) \<times> store" where
  "run_update data conds s =
     (if \<not> data_ok data \<or> \<not> list_all cond_ok conds
      then (Inl (StoreError ''invalid input for column''), s)
      else
        (let es = map (\<lambda>e. if matching conds e then apply_data data e else e) (expenses s)
         in if ''id'' \<in> set (map fst data) \<and> \<not> distinct (map e_id es)
            then (Inl (StoreError ''duplicate key value violates unique constraint''), s)
            else (Inr (map (\<lambda>e. to_row columns (apply_data data e))
                         (filter (matching conds) (expenses s))),
                  s\<lparr>expenses := es\<rparr>)))"

text \<open>Modelled from the spec: delete by condition.\<close>

definition run_delete :: "cond list \<Rightarrow> store \<Rightarrow> (exn + row list) \<times> store" where
  "run_delete conds s =
     (if \<not> list_all cond_ok conds then (Inl (StoreError ''invalid input for column''), s)
      else (Inr (map (to_row columns) (filter (matching conds) (expenses s))),
            s\<lparr>expenses := filter (\<lambda>e. \<not> matching conds e) (expenses s)\<rparr>))"

fun table_of :: "request \<Rightarrow> string" where
  "table_of (Insert t data) = t"
| "table_of (Select t cols conds keys) = t"
| "table_of (Update t data conds) = t"
| "table_of (Delete t conds) = t"

text \<open>
  Modelled from the spec: one call of the store. The request is received; it fails with
  the store's fault if there is one, and for a table other than \<^verbatim>\<open>expenses_test\<close>.
\<close>

definition execute :: "store store_client" where
  "execute rq s =
     (let s1 = s\<lparr>requests := requests s @ [rq]\<rparr>
      in case fault s of
           Some x \<Rightarrow> (Inl x, s1)
         | None \<Rightarrow>
             if table_of rq \<noteq> ''expenses_test''
             then (Inl (StoreError ''relation does not exist''), s1)
             else (case rq of
                     Insert t data \<Rightarrow> run_insert data s1
                   | Select t cols conds keys \<Rightarrow> run_select cols conds keys s1
                   | Update t data conds \<Rightarrow> run_update data conds s1
                   | Delete t conds \<Rightarrow> run_delete conds s1))"

text \<open>A store with three expenses, for examples.\<close>

definition example_store :: store where
  "example_store =
     \<lparr>expenses =
        [\<lparr>e_id = 1, e_date = ''2024-01-15'', e_amount = 12, e_category = ''Food'',
          e_subcategory = [], e_note = ''lunch'', e_created_at = ''2024-01-15T13:00:00+00:00''\<rparr>,
         \<lparr>e_id = 2, e_date = ''2024-02-01'', e_amount = 30, e_category = ''Travel'',
          e_subcategory = ''bus'', e_note = [], e_created_at = ''2024-02-01T08:00:00+00:00''\<rparr>,
         \<lparr>e_id = 3, e_date = ''2024-01-15'', e_amount = 5, e_category = ''Food'',
          e_subcategory = [], e_note = [], e_created_at = ''2024-02-02T09:00:00+00:00''\<rparr>],
      next_id = 4, now = ''2024-06-01T12:00:00+00:00'', fault = None, requests = []\<rparr>"

section \<open>Evaluation of the model on examples\<close>

lemmas op_defs = add_expense_def add_expense_try_def list_expenses_def list_expenses_try_def
  summarize_def summarize_try_def delete_expense_def delete_expense_try_def
  update_expense_def update_expense_try_def try_except_def is_ValueError_def is_Exception_def

lemmas store_defs = execute_def run_select_def run_insert_def run_update_def run_delete_def
  matching_def get_col_def to_row_def fits_def columns_def data_ok_def put_col_def sort_by_def

lemmas strptime_defs = strptime_def match_format_def match_month_def match_day_def
  is_digit_def in_range_def digit_val_def days_in_month_def is_leap_def

lemma strptime_raises_ValueError: "strptime d = Inl x \<Longrightarrow> x = ValueError (str_exn x)"
  by (auto simp: strptime_def split: list.splits prod.splits if_splits)

lemma strptime_slashes:
  "strptime ''2024/01/01''
     = Inl (ValueError (''time data '' @ py_repr ''2024/01/01'' @ '' does not match format ''
                          @ py_repr ''%Y-%m-%d''))"
  by (simp add: strptime_defs)

lemma strptime_words:
  "strptime ''not-a-date''
     = Inl (ValueError (''time data '' @ py_repr ''not-a-date'' @ '' does not match format ''
                          @ py_repr ''%Y-%m-%d''))"
  by (simp add: strptime_defs)

lemma strptime_february_30:
  "strptime ''2024-02-30'' = Inl (ValueError ''day is out of range for month'')"
  by (simp add: strptime_defs)

lemma strptime_padded: "strptime ''2024-01-15'' = Inr (2024, 1, 15)"
  by (simp add: strptime_defs)

lemma strptime_unpadded: "strptime ''2024-1-1'' = Inr (2024, 1, 1)"
  by (simp add: strptime_defs)

lemma show_int_2: "show_int 2 = ''2''"
  by code_simp

lemma show_int_99: "show_int 99 = ''99''"
  by code_simp

section \<open>Sorting with a comparison\<close>

lemma set_insort_by: "set (insort_by le x xs) = insert x (set xs)"
  by (induction xs) auto

lemma set_sort_by: "set (sort_by le xs) = set xs"
  by (induction xs) (simp_all add: sort_by_def set_insort_by)

lemma length_insort_by: "length (insort_by le x xs) = Suc (length xs)"
  by (induction xs) auto

lemma length_sort_by: "length (sort_by le xs) = length xs"
  by (induction xs) (simp_all add: sort_by_def length_insort_by)

lemma sorted_wrt_insort_by:
  assumes total: "\<And>a b. le a b \<or> le b a"
    and trans: "\<And>a b c. le a b \<Longrightarrow> le b c \<Longrightarrow> le a c"
    and sorted: "sorted_wrt le xs"
  shows "sorted_wrt le (insort_by le x xs)"
  using sorted
proof (induction xs)
  case Nil
  then show ?case by simp
next
  case (Cons y ys)
  show ?case
  proof (cases "le x y")
    case True
    with Cons.prems show ?thesis
      by (auto intro: trans)
  next
    case False
    with total have "le y x" by blast
    with False Cons show ?thesis
      by (auto simp: set_insort_by)
  qed
qed

lemma sorted_wrt_sort_by:
  assumes "\<And>a b. le a b \<or> le b a"
    and "\<And>a b c. le a b \<Longrightarrow> le b c \<Longrightarrow> le a c"
  shows "sorted_wrt le (sort_by le xs)"
proof (induction xs)
  case Nil
  then show ?case by (simp add: sort_by_def)
next
  case (Cons x xs)
  have "sort_by le (x # xs) = insort_by le x (sort_by le xs)"
    by (simp add: sort_by_def)
  with Cons assms show ?case
    by (simp add: sorted_wrt_insort_by)
qed



section \<open>What the store does with the requests of the operations\<close>

lemma before_date_id:
  "before [(''date'', True), (''id'', True)]
     = (\<lambda>a b. e_date b < e_date a \<or> (e_date b = e_date a \<and> e_id b \<le> e_id a))"
  by (auto simp: get_col_def fun_eq_iff)

lemma matching_date_range:
  "matching [Gte ''date'' (Str a), Lte ''date'' (Str b)] e = (a \<le> e_date e \<and> e_date e \<le> b)"
  by (simp add: matching_def get_col_def)

lemma to_row_list_columns:
  "to_row list_columns e =
     [(''id'', Integer (e_id e)), (''date'', Str (e_date e)), (''amount'', Float (e_amount e)),
      (''category'', Str (e_category e)), (''subcategory'', Str (e_subcategory e)),
      (''note'', Str (e_note e))]"
  by (simp add: to_row_def list_columns_def get_col_def)

lemma execute_list_request:
  assumes "fault s = None"
  shows "execute (list_request a b) s =
      (Inr (map (to_row list_columns)
             (sort_by (\<lambda>x y. e_date y < e_date x \<or> (e_date y = e_date x \<and> e_id y \<le> e_id x))
                (filter (\<lambda>e. a \<le> e_date e \<and> e_date e \<le> b) (expenses s)))),
       s\<lparr>requests := requests s @ [list_request a b]\<rparr>)"
proof -
  have "list_all (\<lambda>c. c \<in> set columns) (list_columns @ map fst [(''date'', True), (''id'', True)])"
    by (simp add: columns_def list_columns_def)
  moreover have "list_all cond_ok [Gte ''date'' (Str a), Lte ''date'' (Str b)]"
    by (simp add: fits_def)
  moreover have "matching [Gte ''date'' (Str a), Lte ''date'' (Str b)]
                   = (\<lambda>e. a \<le> e_date e \<and> e_date e \<le> b)"
    by (simp add: matching_date_range fun_eq_iff)
  ultimately show ?thesis using assms
    unfolding execute_def list_request_def run_select_def
    by (simp add: before_date_id del: before.simps)
qed

lemma execute_insert:
  assumes "fault s = None"
  shows "execute (Insert ''expenses_test''
                    [(''date'', Str d), (''amount'', Float a), (''category'', Str c),
                     (''subcategory'', Str sc), (''note'', Str n)]) s
    = (if next_id s \<in> set (map e_id (expenses s))
       then (Inl (StoreError ''duplicate key value violates unique constraint''),
             s\<lparr>requests := requests s @ [Insert ''expenses_test''
                    [(''date'', Str d), (''amount'', Float a), (''category'', Str c),
                     (''subcategory'', Str sc), (''note'', Str n)]],
               next_id := next_id s + 1\<rparr>)
       else (Inr [to_row columns \<lparr>e_id = next_id s, e_date = d, e_amount = a, e_category = c,
                    e_subcategory = sc, e_note = n, e_created_at = now s\<rparr>],
             s\<lparr>requests := requests s @ [Insert ''expenses_test''
                    [(''date'', Str d), (''amount'', Float a), (''category'', Str c),
                     (''subcategory'', Str sc), (''note'', Str n)]],
               next_id := next_id s + 1,
               expenses := expenses s @ [\<lparr>e_id = next_id s, e_date = d, e_amount = a,
                    e_category = c, e_subcategory = sc, e_note = n,
                    e_created_at = now s\<rparr>]\<rparr>))"
  using assms
  by (simp add: execute_def run_insert_def data_ok_def fits_def put_col_def Let_def)

lemma getitem_id_columns: "getitem (to_row columns e) ''id'' = Inr (Integer (e_id e))"
  by (simp add: getitem_def to_row_def columns_def get_col_def)

lemma add_expense_fault:
  assumes "fault s = Some x"
  shows "\<exists>m. fst (add_expense execute s date amount category subcategory note)
               = Returned (Error m)"
  using assms
  by (auto simp: op_defs execute_def Let_def
      split: sum.splits exn.splits)

lemma add_expense_unparsed:
  assumes "strptime date = Inl x"
  shows "\<exists>m. fst (add_expense execute s date amount category subcategory note)
               = Returned (Error m)"
  using assms strptime_raises_ValueError [OF assms]
  by (cases x) (auto simp: op_defs)

lemma add_expense_on_store:
  assumes "fault s = None" and "strptime date = Inr p"
  shows "add_expense execute s date amount category subcategory note
    = (if next_id s \<in> set (map e_id (expenses s))
       then (Returned (Error (''Database error: ''
                               @ ''duplicate key value violates unique constraint'')),
             s\<lparr>requests := requests s @ [Insert ''expenses_test''
                    [(''date'', Str date), (''amount'', Float amount),
                     (''category'', Str category), (''subcategory'', Str subcategory),
                     (''note'', Str note)]],
               next_id := next_id s + 1\<rparr>)
       else (Returned (Added (Integer (next_id s)) ''Expense added successfully''
                (to_row columns \<lparr>e_id = next_id s, e_date = date, e_amount = amount,
                    e_category = category, e_subcategory = subcategory, e_note = note,
                    e_created_at = now s\<rparr>)),
             s\<lparr>requests := requests s @ [Insert ''expenses_test''
                    [(''date'', Str date), (''amount'', Float amount),
                     (''category'', Str category), (''subcategory'', Str subcategory),
                     (''note'', Str note)]],
               next_id := next_id s + 1,
               expenses := expenses s @ [\<lparr>e_id = next_id s, e_date = date, e_amount = amount,
                    e_category = category, e_subcategory = subcategory, e_note = note,
                    e_created_at = now s\<rparr>]\<rparr>))"
  using assms
  by (simp add: op_defs execute_insert getitem_id_columns
           del: append.simps)

lemma update_data_Inr:
  assumes "update_data date amount category subcategory note = Inr data"
  shows "data_ok data" and "''id'' \<notin> set (map fst data)"
    and "apply_data data e
           = e\<lparr>e_date := (case date of None \<Rightarrow> e_date e | Some d \<Rightarrow> d),
               e_amount := (case amount of None \<Rightarrow> e_amount e | Some a \<Rightarrow> a),
               e_category := (case category of None \<Rightarrow> e_category e | Some c \<Rightarrow> c),
               e_subcategory := (case subcategory of None \<Rightarrow> e_subcategory e | Some c \<Rightarrow> c),
               e_note := (case note of None \<Rightarrow> e_note e | Some n \<Rightarrow> n)\<rparr>"
    and "map fst data
           = (case date of None \<Rightarrow> [] | Some _ \<Rightarrow> [''date''])
           @ (case amount of None \<Rightarrow> [] | Some _ \<Rightarrow> [''amount''])
           @ (case category of None \<Rightarrow> [] | Some _ \<Rightarrow> [''category''])
           @ (case subcategory of None \<Rightarrow> [] | Some _ \<Rightarrow> [''subcategory''])
           @ (case note of None \<Rightarrow> [] | Some _ \<Rightarrow> [''note''])"
  using assms
  by (auto simp: update_data_def data_ok_def fits_def put_col_def
           split: option.splits sum.splits)

lemma update_data_valid:
  assumes "\<forall>d. date = Some d \<longrightarrow> (\<exists>p. strptime d = Inr p)"
  shows "\<exists>data. update_data date amount category subcategory note = Inr data"
  using assms by (cases date) (auto simp: update_data_def)

lemma matching_id: "matching [Eq ''id'' (Integer i)] e = (e_id e = i)"
  by (auto simp: matching_def get_col_def)

lemma execute_update:
  assumes "fault s = None" and "data_ok data" and "''id'' \<notin> set (map fst data)"
  shows "execute (Update ''expenses_test'' data [Eq ''id'' (Integer i)]) s
    = (Inr (map (\<lambda>e. to_row columns (apply_data data e)) (filter (\<lambda>e. e_id e = i) (expenses s))),
       s\<lparr>requests := requests s @ [Update ''expenses_test'' data [Eq ''id'' (Integer i)]],
         expenses := map (\<lambda>e. if e_id e = i then apply_data data e else e) (expenses s)\<rparr>)"
proof -
  have "matching [Eq ''id'' (Integer i)] = (\<lambda>e. e_id e = i)"
    by (simp add: matching_id fun_eq_iff)
  with assms show ?thesis
    by (simp add: execute_def run_update_def fits_def Let_def)
qed

section \<open>The loop of summarize\<close>













section \<open>No exception leaves an operation\<close>

text \<open>
  Claim C1. Whatever the arguments, the state of the store and the behaviour of the store
  client (any answer, any exception of class \<^verbatim>\<open>Exception\<close>), each of the five operations
  returns: \<^verbatim>\<open>add_expense\<close> its success envelope or an error envelope, \<^verbatim>\<open>list_expenses\<close> a
  list of rows or an error envelope, \<^verbatim>\<open>summarize\<close> a list of entries or an error envelope,
  \<^verbatim>\<open>delete_expense\<close> and \<^verbatim>\<open>update_expense\<close> their success envelope or an error envelope.
  No call ends with a raised exception.
\<close>

theorem operations_return_structured_result:
  "(\<exists>r s'. add_expense exec s date amount category subcategory note = (Returned r, s')
            \<and> (is_added r \<or> is_error r))
 \<and> (\<exists>r s'. list_expenses exec s start_date end_date = (Returned r, s')
            \<and> (is_rows r \<or> is_error r))
 \<and> (\<exists>r s'. summarize exec s start_date end_date only = (Returned r, s')
            \<and> (is_summary r \<or> is_error r))
 \<and> (\<exists>r s'. delete_expense exec s expense_id = (Returned r, s')
            \<and> (is_deleted r \<or> is_error r))
 \<and> (\<exists>r s'. update_expense exec s expense_id new_date new_amount new_category new_subcategory
               new_note = (Returned r, s')
            \<and> (is_updated r \<or> is_error r))"
proof (intro conjI)
  show "\<exists>r s'. add_expense exec s date amount category subcategory note = (Returned r, s')
            \<and> (is_added r \<or> is_error r)"
    by (auto simp: op_defs Let_def
             split: sum.splits prod.splits list.splits exn.splits)
  show "\<exists>r s'. list_expenses exec s start_date end_date = (Returned r, s')
            \<and> (is_rows r \<or> is_error r)"
    by (auto simp: op_defs split: sum.splits prod.splits)
  show "\<exists>r s'. summarize exec s start_date end_date only = (Returned r, s')
            \<and> (is_summary r \<or> is_error r)"
    by (auto simp: op_defs split: sum.splits prod.splits)
  show "\<exists>r s'. delete_expense exec s expense_id = (Returned r, s')
            \<and> (is_deleted r \<or> is_error r)"
    by (auto simp: op_defs split: sum.splits prod.splits)
  show "\<exists>r s'. update_expense exec s expense_id new_date new_amount new_category new_subcategory
               new_note = (Returned r, s')
            \<and> (is_updated r \<or> is_error r)"
    by (auto simp: op_defs
             split: sum.splits prod.splits exn.splits if_splits)
qed

text \<open>
  An instance: a client that answers every request with one row without columns. Reading
  the \<^verbatim>\<open>id\<close> of the inserted row and the \<^verbatim>\<open>category\<close> of a selected row raise
  \<^verbatim>\<open>KeyError\<close>, which the operations turn into error envelopes.
\<close>

theorem operations_return_structured_result_witness:
  "add_expense (\<lambda>rq s. (Inr [[]], s)) () ''2024-01-15'' 12 ''Food'' [] []
     = (Returned (Error (''Database error: '' @ py_repr ''id'')), ())
 \<and> summarize (\<lambda>rq s. (Inr [[]], s)) () ''2024-01-01'' ''2024-12-31'' None
     = (Returned (Error (''Error summarizing expenses_test: '' @ py_repr ''category'')), ())
 \<and> list_expenses (\<lambda>rq s. (Inl (StoreError ''timeout''), s)) () ''2024-01-01'' ''2024-12-31''
     = (Returned (Error ''Error listing expenses: timeout''), ())"
  using operations_return_structured_result
          [of "\<lambda>rq s. (Inr [[]], s)" "()" "''2024-01-15''" 12 "''Food''" "[]" "[]"
              "''2024-01-01''" "''2024-12-31''" None]
        operations_return_structured_result
          [of "\<lambda>rq s. (Inl (StoreError ''timeout''), s)" "()" _ _ _ _ _
              "''2024-01-01''" "''2024-12-31''"]
  by (simp add: op_defs strptime_padded getitem_def
                op_defs)

section \<open>Validation before the store is called\<close>

text \<open>
  Claim C4. When the date does not parse (\<^verbatim>\<open>strptime\<close> raises), \<^verbatim>\<open>add_expense\<close> returns the
  error envelope whose message starts with \<^verbatim>\<open>Invalid date format. Use YYYY-MM-DD: \<close> and
  goes on with the text of the exception. The state of the store is the one before the
  call, for every store client, also one that records each request: no request is issued.
\<close>

theorem add_expense_rejects_unparsed_date:
  assumes "strptime date = Inl x"
  shows "add_expense exec s date amount category subcategory note
           = (Returned (Error (''Invalid date format. Use YYYY-MM-DD: '' @ str_exn x)), s)"
proof -
  from assms obtain m where x: "x = ValueError m"
    using strptime_raises_ValueError by blast
  with assms show ?thesis
    by (simp add: op_defs)
qed

theorem add_expense_rejects_unparsed_date_witness:
  "strptime ''2024/01/01''
     = Inl (ValueError (''time data '' @ py_repr ''2024/01/01'' @ '' does not match format ''
                          @ py_repr ''%Y-%m-%d''))
 \<and> add_expense execute example_store ''2024/01/01'' 12 ''Food'' [] []
     = (Returned (Error (''Invalid date format. Use YYYY-MM-DD: ''
                           @ ''time data '' @ py_repr ''2024/01/01''
                           @ '' does not match format '' @ py_repr ''%Y-%m-%d'')),
        example_store)
 \<and> requests (snd (add_expense execute example_store ''not-a-date'' 12 ''Food'' [] [])) = []
 \<and> expenses (snd (add_expense execute example_store ''2024-02-30'' 12 ''Food'' [] []))
     = expenses example_store"
  using add_expense_rejects_unparsed_date [OF strptime_slashes, of execute example_store]
        add_expense_rejects_unparsed_date [OF strptime_words, of execute example_store]
        add_expense_rejects_unparsed_date [OF strptime_february_30, of execute example_store]
        strptime_slashes
  by (simp add: example_store_def)

text \<open>
  Claim C6. With every optional argument omitted, \<^verbatim>\<open>update_expense\<close> returns the error
  envelope \<^verbatim>\<open>No fields to update\<close> and the state of the store is the one before the call,
  for every store client and every id: no request is issued.
\<close>

theorem update_without_fields_rejected:
  "update_expense exec s expense_id None None None None None
     = (Returned (Error ''No fields to update''), s)"
  by (simp add: op_defs update_data_def)

theorem update_without_fields_rejected_witness:
  "update_expense execute example_store 2 None None None None None
     = (Returned (Error ''No fields to update''), example_store)
 \<and> requests (snd (update_expense execute example_store 2 None None None None None)) = []"
  using update_without_fields_rejected [of execute example_store 2]
  by (simp add: example_store_def)

section \<open>The category filter of summarize\<close>

text \<open>
  Claim C9. \<^verbatim>\<open>summarize\<close> with the empty string as category is \<^verbatim>\<open>summarize\<close> without a
  category, for every date range, store client and state: the request that goes to the
  store is the same, with the two conditions on the date and none on the category, so the
  reply and the new state are the same.
\<close>

theorem summarize_empty_category:
  "summarize exec s start_date end_date (Some []) = summarize exec s start_date end_date None
 \<and> summarize_request start_date end_date (Some [])
     = Select ''expenses_test'' [''category'', ''amount'']
         [Gte ''date'' (Str start_date), Lte ''date'' (Str end_date)] []"
  by (simp add: op_defs summarize_request_def)

text \<open>On the example store the reply to the empty category has two categories.\<close>

theorem summarize_empty_category_witness:
  "fst (summarize execute example_store ''2024-01-01'' ''2024-12-31'' (Some []))
     = Returned (Summary
         [\<lparr>entry_category = Str ''Travel'', total_amount = FloatN 30, count = 1\<rparr>,
          \<lparr>entry_category = Str ''Food'', total_amount = FloatN 17, count = 2\<rparr>])"
proof -
  have "fst (summarize execute example_store ''2024-01-01'' ''2024-12-31'' None)
     = Returned (Summary
         [\<lparr>entry_category = Str ''Travel'', total_amount = FloatN 30, count = 1\<rparr>,
          \<lparr>entry_category = Str ''Food'', total_amount = FloatN 17, count = 2\<rparr>])"
    by (simp add: op_defs summarize_request_def example_store_def
          store_defs getitem_def bump_def total_desc_def)
  then show ?thesis
    using summarize_empty_category [of execute example_store "''2024-01-01''" "''2024-12-31''"]
    by simp
qed

section \<open>Deleting\<close>

text \<open>
  Claim C7. When the store call returns, whatever rows it reports as deleted,
  \<^verbatim>\<open>delete_expense\<close> returns the success envelope whose message names the id. On the
  modelled store without a fault the call returns for every id: the reply is the same
  whether a row had the id or not, and the table loses exactly the rows with that id.
\<close>

theorem delete_reports_success:
  "(\<forall>rows s'. exec (Delete ''expenses_test'' [Eq ''id'' (Integer expense_id)]) s = (Inr rows, s')
       \<longrightarrow> delete_expense exec s expense_id
             = (Returned (Deleted (''Expense '' @ show_int expense_id @ '' deleted successfully'')),
                s'))
 \<and> (fault st = None
       \<longrightarrow> fst (delete_expense execute st expense_id)
             = Returned (Deleted (''Expense '' @ show_int expense_id @ '' deleted successfully''))
         \<and> expenses (snd (delete_expense execute st expense_id))
             = filter (\<lambda>e. e_id e \<noteq> expense_id) (expenses st))"
  by (auto simp: op_defs store_defs intro!: filter_cong)

theorem delete_reports_success_witness:
  "fault example_store = None
 \<and> 99 \<notin> set (map e_id (expenses example_store))
 \<and> fst (delete_expense execute example_store 99)
     = Returned (Deleted ''Expense 99 deleted successfully'')
 \<and> expenses (snd (delete_expense execute example_store 99)) = expenses example_store
 \<and> 2 \<in> set (map e_id (expenses example_store))
 \<and> fst (delete_expense execute example_store 2)
     = Returned (Deleted ''Expense 2 deleted successfully'')
 \<and> map e_id (expenses (snd (delete_expense execute example_store 2))) = [1, 3]"
  using delete_reports_success [of execute 99 example_store example_store]
        delete_reports_success [of execute 2 example_store example_store]
  by (simp add: example_store_def show_int_2 show_int_99)

section \<open>Listing\<close>

text \<open>
  The range of \<^verbatim>\<open>list_expenses\<close> and \<^verbatim>\<open>summarize\<close> is a range of text. For zero-padded
  dates it is the range of the calendar; a date that is not zero-padded, which
  \<^verbatim>\<open>add_expense\<close> accepts, need not be in the text range of its month.
\<close>

lemma unpadded_date_outside_its_month:
  "strptime ''2024-1-1'' = Inr (2024, 1, 1)
 \<and> \<not> (''2024-01-01'' \<le> ''2024-1-1'' \<and> ''2024-1-1'' \<le> ''2024-01-31'')"
  by (simp add: strptime_unpadded)

text \<open>
  Claim C2. On the modelled store without a fault, for every range and every table,
  \<^verbatim>\<open>list_expenses\<close> returns the rows of a list \<open>es\<close> of expenses such that
  \<^item> each row has exactly the keys \<^verbatim>\<open>id, date, amount, category, subcategory, note\<close>, with
    the expense's values (no \<^verbatim>\<open>created_at\<close>);
  \<^item> \<open>es\<close> holds the expenses of the table whose date is in the range, both ends
    included, and no other (the dates are text and are compared as text);
  \<^item> \<open>es\<close> is ordered by date descending and, within a date, by id descending;
  \<^item> \<open>es\<close> is empty, and the reply the empty list, exactly when no expense is in the
    range.
\<close>

theorem list_expenses_in_range_newest_first:
  assumes "fault s = None"
  shows "\<exists>es. fst (list_expenses execute s start_date end_date)
             = Returned (Rows (map (\<lambda>e. [(''id'', Integer (e_id e)), (''date'', Str (e_date e)),
                                         (''amount'', Float (e_amount e)),
                                         (''category'', Str (e_category e)),
                                         (''subcategory'', Str (e_subcategory e)),
                                         (''note'', Str (e_note e))]) es))
        \<and> set es = {e \<in> set (expenses s). start_date \<le> e_date e \<and> e_date e \<le> end_date}
        \<and> length es
            = length (filter (\<lambda>e. start_date \<le> e_date e \<and> e_date e \<le> end_date) (expenses s))
        \<and> sorted_wrt (\<lambda>a b. e_date b < e_date a \<or> (e_date b = e_date a \<and> e_id b \<le> e_id a)) es
        \<and> (es = [] \<longleftrightarrow> \<not> (\<exists>e \<in> set (expenses s). start_date \<le> e_date e \<and> e_date e \<le> end_date))"
proof -
  let ?le = "\<lambda>x y. e_date y < e_date x \<or> (e_date y = e_date x \<and> e_id y \<le> e_id x)"
  let ?P = "\<lambda>e. start_date \<le> e_date e \<and> e_date e \<le> end_date"
  let ?es = "sort_by ?le (filter ?P (expenses s))"
  have reply: "fst (list_expenses execute s start_date end_date)
      = Returned (Rows (map (to_row list_columns) ?es))"
    by (simp add: op_defs execute_list_request [OF assms])
  have set: "set ?es = {e \<in> set (expenses s). ?P e}"
    by (simp add: set_sort_by)
  have len: "length ?es = length (filter ?P (expenses s))"
    by (simp add: length_sort_by)
  have sorted: "sorted_wrt ?le ?es"
    by (rule sorted_wrt_sort_by) auto
  have empty: "?es = [] \<longleftrightarrow> \<not> (\<exists>e \<in> set (expenses s). ?P e)"
    using set by (metis (no_types, lifting) empty_Collect_eq set_empty)
  from reply set len sorted empty show ?thesis
    unfolding to_row_list_columns [abs_def] by blast
qed

text \<open>
  On the example store, January 2024 has the expenses 3 and 1, which share the date, and
  the year 2023 has none.
\<close>


theorem list_expenses_in_range_newest_first_witness:
  "fault example_store = None
 \<and> fst (list_expenses execute example_store ''2024-01-01'' ''2024-01-31'')
     = Returned (Rows
        [[(''id'', Integer 3), (''date'', Str ''2024-01-15''), (''amount'', Float 5),
          (''category'', Str ''Food''), (''subcategory'', Str []), (''note'', Str [])],
         [(''id'', Integer 1), (''date'', Str ''2024-01-15''), (''amount'', Float 12),
          (''category'', Str ''Food''), (''subcategory'', Str []), (''note'', Str ''lunch'')]])
 \<and> fst (list_expenses execute example_store ''2023-01-01'' ''2023-12-31'') = Returned (Rows [])"
proof -
  have h: "fault example_store = None"
    by (simp add: example_store_def)
  have none: "\<not> (\<exists>e \<in> set (expenses example_store). ''2023-01-01'' \<le> e_date e
                                                     \<and> e_date e \<le> ''2023-12-31'')"
    by (simp add: example_store_def)
  have "fst (list_expenses execute example_store ''2023-01-01'' ''2023-12-31'') = Returned (Rows [])"
    using list_expenses_in_range_newest_first [OF h, of "''2023-01-01''" "''2023-12-31''"] none
    by auto
  moreover have "fst (list_expenses execute example_store ''2024-01-01'' ''2024-01-31'')
     = Returned (Rows
        [[(''id'', Integer 3), (''date'', Str ''2024-01-15''), (''amount'', Float 5),
          (''category'', Str ''Food''), (''subcategory'', Str []), (''note'', Str [])],
         [(''id'', Integer 1), (''date'', Str ''2024-01-15''), (''amount'', Float 12),
          (''category'', Str ''Food''), (''subcategory'', Str []), (''note'', Str ''lunch'')]])"
    by (simp add: op_defs list_request_def list_columns_def example_store_def store_defs)
  ultimately show ?thesis
    using h by simp
qed

section \<open>Adding\<close>

text \<open>
  Claim C8. Let the date lie in the range of the later listing. On the modelled store
  without a fault, whose sequence has not been overtaken by an id of the table,
  \<^verbatim>\<open>add_expense\<close> with a date that parses returns its success envelope. Whenever
  \<^verbatim>\<open>add_expense\<close> returns a success envelope, its id is an integer that no row of the table
  had before, and \<^verbatim>\<open>list_expenses\<close> on the store after the insert returns rows among which
  is the one with that id and the date, amount, category, subcategory and note given.
  Amounts are ideal numbers here: the store keeps the number it is given.
\<close>

theorem add_then_list_returns_record:
  assumes "start_date \<le> date" and "date \<le> end_date"
  shows "(fault s = None \<and> next_id s \<notin> set (map e_id (expenses s)) \<and> (\<exists>p. strptime date = Inr p)
            \<longrightarrow> (\<exists>r. fst (add_expense execute s date amount category subcategory note)
                       = Returned (Added (Integer (next_id s)) ''Expense added successfully'' r)))
       \<and> (\<forall>i m r s1.
            add_expense execute s date amount category subcategory note
              = (Returned (Added i m r), s1)
            \<longrightarrow> (\<exists>n rows. i = Integer n \<and> n \<notin> set (map e_id (expenses s))
                    \<and> fst (list_expenses execute s1 start_date end_date) = Returned (Rows rows)
                    \<and> [(''id'', Integer n), (''date'', Str date), (''amount'', Float amount),
                        (''category'', Str category), (''subcategory'', Str subcategory),
                        (''note'', Str note)] \<in> set rows))"
proof (intro conjI allI impI)
  assume "fault s = None \<and> next_id s \<notin> set (map e_id (expenses s))
            \<and> (\<exists>p. strptime date = Inr p)"
  then show "\<exists>r. fst (add_expense execute s date amount category subcategory note)
                       = Returned (Added (Integer (next_id s)) ''Expense added successfully'' r)"
    by (auto simp: add_expense_on_store)
next
  fix i m r s1
  assume added: "add_expense execute s date amount category subcategory note
                   = (Returned (Added i m r), s1)"
  let ?e = "\<lparr>e_id = next_id s, e_date = date, e_amount = amount,
                    e_category = category, e_subcategory = subcategory, e_note = note,
                    e_created_at = now s\<rparr>"
  have ok: "fault s = None"
  proof (cases "fault s")
    case (Some x)
    from add_expense_fault [OF this, of date amount category subcategory "note"] added
    show ?thesis by auto
  qed simp
  obtain p where p: "strptime date = Inr p"
  proof (cases "strptime date")
    case (Inl x)
    from add_expense_unparsed [OF this, of s amount category subcategory "note"] added
    show ?thesis by auto
  qed simp
  from added have fresh: "next_id s \<notin> set (map e_id (expenses s))"
    and i: "i = Integer (next_id s)"
    and s1: "expenses s1 = expenses s @ [?e]" "fault s1 = None"
    unfolding add_expense_on_store [OF ok p]
    by (auto simp: ok split: if_splits)
  let ?le = "\<lambda>x y. e_date y < e_date x \<or> (e_date y = e_date x \<and> e_id y \<le> e_id x)"
  let ?es = "sort_by ?le (filter (\<lambda>e. start_date \<le> e_date e \<and> e_date e \<le> end_date)
                            (expenses s1))"
  have "fst (list_expenses execute s1 start_date end_date)
          = Returned (Rows (map (to_row list_columns) ?es))"
    by (simp add: op_defs execute_list_request [OF s1(2)])
  moreover have "?e \<in> set ?es"
    using assms by (simp add: set_sort_by s1)
  then have "to_row list_columns ?e \<in> set (map (to_row list_columns) ?es)"
    by simp
  ultimately show "\<exists>n rows. i = Integer n \<and> n \<notin> set (map e_id (expenses s))
                    \<and> fst (list_expenses execute s1 start_date end_date) = Returned (Rows rows)
                    \<and> [(''id'', Integer n), (''date'', Str date), (''amount'', Float amount),
                        (''category'', Str category), (''subcategory'', Str subcategory),
                        (''note'', Str note)] \<in> set rows"
    using fresh i by (simp add: to_row_list_columns)
qed

text \<open>A fourth expense on the example store, listed over the year 2024.\<close>

theorem add_then_list_returns_record_witness:
  "(''2024-01-01'' :: string) \<le> ''2024-03-10'' \<and> (''2024-03-10'' :: string) \<le> ''2024-12-31''
 \<and> fault example_store = None
 \<and> next_id example_store \<notin> set (map e_id (expenses example_store))
 \<and> strptime ''2024-03-10'' = Inr (2024, 3, 10)
 \<and> (\<exists>r. fst (add_expense execute example_store ''2024-03-10'' 8 ''Books'' ''novel'' ''gift'')
          = Returned (Added (Integer 4) ''Expense added successfully'' r))
 \<and> (\<exists>rows. fst (list_expenses execute
                    (snd (add_expense execute example_store ''2024-03-10'' 8 ''Books'' ''novel''
                            ''gift''))
                    ''2024-01-01'' ''2024-12-31'') = Returned (Rows rows)
          \<and> [(''id'', Integer 4), (''date'', Str ''2024-03-10''), (''amount'', Float 8),
              (''category'', Str ''Books''), (''subcategory'', Str ''novel''),
              (''note'', Str ''gift'')] \<in> set rows)"
proof -
  let ?add = "add_expense execute example_store ''2024-03-10'' 8 ''Books'' ''novel'' ''gift''"
  have h1: "(''2024-01-01'' :: string) \<le> ''2024-03-10''"
    and h2: "(''2024-03-10'' :: string) \<le> ''2024-12-31''"
    by simp_all
  have h3: "fault example_store = None"
    and h4: "next_id example_store \<notin> set (map e_id (expenses example_store))"
    and n: "next_id example_store = 4"
    by (simp_all add: example_store_def)
  have h5: "strptime ''2024-03-10'' = Inr (2024, 3, 10)"
    by (simp add: strptime_defs)
  note T = add_then_list_returns_record
             [OF h1 h2, of example_store 8 "''Books''" "''novel''" "''gift''"]
  from T h3 h4 h5 obtain r
    where r: "fst ?add = Returned (Added (Integer 4) ''Expense added successfully'' r)"
    unfolding n by blast
  then have "?add = (Returned (Added (Integer 4) ''Expense added successfully'' r), snd ?add)"
    by (metis prod.collapse)
  with T obtain k rows where "Integer 4 = Integer k"
    and "fst (list_expenses execute (snd ?add) ''2024-01-01'' ''2024-12-31'')
           = Returned (Rows rows)"
    and "[(''id'', Integer k), (''date'', Str ''2024-03-10''), (''amount'', Float 8),
          (''category'', Str ''Books''), (''subcategory'', Str ''novel''),
          (''note'', Str ''gift'')] \<in> set rows"
    by blast
  with h1 h2 h3 h4 h5 r show ?thesis
    by auto
qed

text \<open>
  Claim C10. The date \<^verbatim>\<open>2024-1-1\<close>, which is not zero-padded, passes the validation of
  \<^verbatim>\<open>add_expense\<close>. For every store client, the insert request goes out with the date as
  given and, when the store answers with the inserted row, the reply is the success
  envelope, not a format error. On the modelled store without a fault and with a free
  next id, the new row of the table has the date \<^verbatim>\<open>2024-1-1\<close>, not \<^verbatim>\<open>2024-01-01\<close>.
\<close>

theorem add_expense_accepts_unpadded_date:
  "(\<forall>r rs i s'.
       exec (Insert ''expenses_test''
               [(''date'', Str ''2024-1-1''), (''amount'', Float amount),
                (''category'', Str category), (''subcategory'', Str subcategory),
                (''note'', Str note)]) s = (Inr (r # rs), s')
       \<and> map_of r ''id'' = Some i
       \<longrightarrow> add_expense exec s ''2024-1-1'' amount category subcategory note
             = (Returned (Added i ''Expense added successfully'' r), s'))
 \<and> (fault st = None \<and> next_id st \<notin> set (map e_id (expenses st))
       \<longrightarrow> (\<exists>r. fst (add_expense execute st ''2024-1-1'' amount category subcategory note)
                  = Returned (Added (Integer (next_id st)) ''Expense added successfully'' r)
                \<and> map_of r ''date'' = Some (Str ''2024-1-1''))
         \<and> expenses (snd (add_expense execute st ''2024-1-1'' amount category subcategory note))
             = expenses st @ [\<lparr>e_id = next_id st, e_date = ''2024-1-1'', e_amount = amount,
                               e_category = category, e_subcategory = subcategory,
                               e_note = note, e_created_at = now st\<rparr>])"
proof (intro conjI allI impI)
  fix r rs i s'
  assume "exec (Insert ''expenses_test''
               [(''date'', Str ''2024-1-1''), (''amount'', Float amount),
                (''category'', Str category), (''subcategory'', Str subcategory),
                (''note'', Str note)]) s = (Inr (r # rs), s')
       \<and> map_of r ''id'' = Some i"
  then show "add_expense exec s ''2024-1-1'' amount category subcategory note
             = (Returned (Added i ''Expense added successfully'' r), s')"
    by (simp add: op_defs strptime_unpadded getitem_def)
next
  assume a: "fault st = None \<and> next_id st \<notin> set (map e_id (expenses st))"
  then have f: "fault st = None" by simp
  from a show "\<exists>r. fst (add_expense execute st ''2024-1-1'' amount category subcategory note)
                  = Returned (Added (Integer (next_id st)) ''Expense added successfully'' r)
                \<and> map_of r ''date'' = Some (Str ''2024-1-1'')"
    by (simp add: add_expense_on_store [OF f strptime_unpadded] to_row_def columns_def
                  get_col_def)
  from a show "expenses (snd (add_expense execute st ''2024-1-1'' amount category subcategory
                                note))
             = expenses st @ [\<lparr>e_id = next_id st, e_date = ''2024-1-1'', e_amount = amount,
                               e_category = category, e_subcategory = subcategory,
                               e_note = note, e_created_at = now st\<rparr>]"
    by (simp add: add_expense_on_store [OF f strptime_unpadded])
qed

theorem add_expense_accepts_unpadded_date_witness:
  "fault example_store = None
 \<and> next_id example_store \<notin> set (map e_id (expenses example_store))
 \<and> map e_date (expenses (snd (add_expense execute example_store ''2024-1-1'' 7 ''Food'' [] [])))
     = [''2024-01-15'', ''2024-02-01'', ''2024-01-15'', ''2024-1-1'']
 \<and> (\<exists>r. fst (add_expense execute example_store ''2024-1-1'' 7 ''Food'' [] [])
            = Returned (Added (Integer 4) ''Expense added successfully'' r))"
proof -
  have h1: "fault example_store = None"
    and h2: "next_id example_store \<notin> set (map e_id (expenses example_store))"
    by (simp_all add: example_store_def)
  from add_expense_accepts_unpadded_date [of execute 7 "''Food''" "[]" "[]" example_store
                                             example_store] h1 h2
  show ?thesis
    by (auto simp: example_store_def)
qed

section \<open>Updating\<close>

text \<open>
  Claim C5. Let \<^verbatim>\<open>update_expense\<close> be called with at least one field, on the modelled store.
  When the store has no fault and the date, if supplied, parses, the table afterwards is
  the table before in which each row with the given id has the supplied fields replaced by
  the supplied values; its other fields, among them \<^verbatim>\<open>id\<close> and \<^verbatim>\<open>created_at\<close>, and every
  other row are as before. In every other case the table is unchanged. In the first case
  one request goes to the store: an update, for the rows with that id, whose keys are
  exactly the names of the supplied fields; the reply is the success envelope naming the
  id. In every case the rows have the ids and the creation times they had.
\<close>

theorem update_touches_supplied_fields:
  assumes "date \<noteq> None \<or> amount \<noteq> None \<or> category \<noteq> None \<or> subcategory \<noteq> None
             \<or> note \<noteq> None"
  shows "expenses (snd (update_expense execute s expense_id date amount category subcategory
                          note))
     = (if fault s = None \<and> (\<forall>d. date = Some d \<longrightarrow> (\<exists>p. strptime d = Inr p))
        then map (\<lambda>e. if e_id e = expense_id
                       then e\<lparr>e_date := (case date of None \<Rightarrow> e_date e | Some d \<Rightarrow> d),
                              e_amount := (case amount of None \<Rightarrow> e_amount e | Some a \<Rightarrow> a),
                              e_category :=
                                (case category of None \<Rightarrow> e_category e | Some c \<Rightarrow> c),
                              e_subcategory :=
                                (case subcategory of None \<Rightarrow> e_subcategory e | Some c \<Rightarrow> c),
                              e_note := (case note of None \<Rightarrow> e_note e | Some n \<Rightarrow> n)\<rparr>
                       else e) (expenses s)
        else expenses s)
   \<and> (fault s = None \<and> (\<forall>d. date = Some d \<longrightarrow> (\<exists>p. strptime d = Inr p))
      \<longrightarrow> (\<exists>data rows.
            requests (snd (update_expense execute s expense_id date amount category subcategory
                             note))
              = requests s @ [Update ''expenses_test'' data [Eq ''id'' (Integer expense_id)]]
          \<and> map fst data
              = (case date of None \<Rightarrow> [] | Some _ \<Rightarrow> [''date''])
              @ (case amount of None \<Rightarrow> [] | Some _ \<Rightarrow> [''amount''])
              @ (case category of None \<Rightarrow> [] | Some _ \<Rightarrow> [''category''])
              @ (case subcategory of None \<Rightarrow> [] | Some _ \<Rightarrow> [''subcategory''])
              @ (case note of None \<Rightarrow> [] | Some _ \<Rightarrow> [''note''])
          \<and> fst (update_expense execute s expense_id date amount category subcategory note)
              = Returned (Updated (''Expense '' @ show_int expense_id
                                     @ '' updated successfully'') rows)))
   \<and> map e_id (expenses (snd (update_expense execute s expense_id date amount category
                                  subcategory note)))
       = map e_id (expenses s)
   \<and> map e_created_at (expenses (snd (update_expense execute s expense_id date amount category
                                          subcategory note)))
       = map e_created_at (expenses s)"
proof -
  let ?upd = "update_expense execute s expense_id date amount category subcategory note"
  let ?valid = "\<forall>d. date = Some d \<longrightarrow> (\<exists>p. strptime d = Inr p)"
  have table: "expenses (snd ?upd)
     = (if fault s = None \<and> ?valid
        then map (\<lambda>e. if e_id e = expense_id
                       then e\<lparr>e_date := (case date of None \<Rightarrow> e_date e | Some d \<Rightarrow> d),
                              e_amount := (case amount of None \<Rightarrow> e_amount e | Some a \<Rightarrow> a),
                              e_category :=
                                (case category of None \<Rightarrow> e_category e | Some c \<Rightarrow> c),
                              e_subcategory :=
                                (case subcategory of None \<Rightarrow> e_subcategory e | Some c \<Rightarrow> c),
                              e_note := (case note of None \<Rightarrow> e_note e | Some n \<Rightarrow> n)\<rparr>
                       else e) (expenses s)
        else expenses s)"
  proof (cases "update_data date amount category subcategory note")
    case (Inl x)
    then have "\<not> ?valid"
      using update_data_valid [of date amount category subcategory "note"] by auto
    moreover from Inl have "snd ?upd = s"
      by (simp add: op_defs split: exn.splits)
    ultimately show ?thesis by auto
  next
    case (Inr data)
    have valid: ?valid
    proof (intro allI impI)
      fix d assume "date = Some d"
      with Inr show "\<exists>p. strptime d = Inr p"
        by (cases "strptime d") (auto simp: update_data_def)
    qed
    from assms Inr have ne: "data \<noteq> []"
      using update_data_Inr(4) [OF Inr] by (auto split: option.splits)
    show ?thesis
    proof (cases "fault s")
      case None
      with Inr ne valid show ?thesis
        by (simp add: op_defs
              execute_update [OF None update_data_Inr(1,2) [OF Inr]] update_data_Inr(3) [OF Inr])
    next
      case (Some x)
      with Inr ne show ?thesis
        by (simp add: op_defs execute_def Let_def
              split: exn.splits)
    qed
  qed
  have request: "fault s = None \<and> ?valid
      \<longrightarrow> (\<exists>data rows.
            requests (snd ?upd)
              = requests s @ [Update ''expenses_test'' data [Eq ''id'' (Integer expense_id)]]
          \<and> map fst data
              = (case date of None \<Rightarrow> [] | Some _ \<Rightarrow> [''date''])
              @ (case amount of None \<Rightarrow> [] | Some _ \<Rightarrow> [''amount''])
              @ (case category of None \<Rightarrow> [] | Some _ \<Rightarrow> [''category''])
              @ (case subcategory of None \<Rightarrow> [] | Some _ \<Rightarrow> [''subcategory''])
              @ (case note of None \<Rightarrow> [] | Some _ \<Rightarrow> [''note''])
          \<and> fst ?upd
              = Returned (Updated (''Expense '' @ show_int expense_id
                                     @ '' updated successfully'') rows))"
  proof
    assume a: "fault s = None \<and> ?valid"
    then obtain data where Inr: "update_data date amount category subcategory note = Inr data"
      using update_data_valid by blast
    from assms have ne: "data \<noteq> []"
      using update_data_Inr(4) [OF Inr] by (auto split: option.splits)
    from a have None: "fault s = None" by simp
    from Inr ne show "\<exists>data rows.
            requests (snd ?upd)
              = requests s @ [Update ''expenses_test'' data [Eq ''id'' (Integer expense_id)]]
          \<and> map fst data
              = (case date of None \<Rightarrow> [] | Some _ \<Rightarrow> [''date''])
              @ (case amount of None \<Rightarrow> [] | Some _ \<Rightarrow> [''amount''])
              @ (case category of None \<Rightarrow> [] | Some _ \<Rightarrow> [''category''])
              @ (case subcategory of None \<Rightarrow> [] | Some _ \<Rightarrow> [''subcategory''])
              @ (case note of None \<Rightarrow> [] | Some _ \<Rightarrow> [''note''])
          \<and> fst ?upd
              = Returned (Updated (''Expense '' @ show_int expense_id
                                     @ '' updated successfully'') rows)"
      by (simp add: op_defs
              execute_update [OF None update_data_Inr(1,2) [OF Inr]] update_data_Inr(4) [OF Inr])
  qed
  have ids: "map e_id (expenses (snd ?upd)) = map e_id (expenses s)"
    unfolding table by (simp add: comp_def)
  have times: "map e_created_at (expenses (snd ?upd)) = map e_created_at (expenses s)"
    unfolding table by (simp add: comp_def)
  from table request ids times show ?thesis
    by (intro conjI)
qed

text \<open>
  On the example store, a new amount for expense 2 changes that amount and nothing else.
\<close>

theorem update_touches_supplied_fields_witness:
  "fault example_store = None
 \<and> expenses (snd (update_expense execute example_store 2 None (Some 42) None None None))
     = [\<lparr>e_id = 1, e_date = ''2024-01-15'', e_amount = 12, e_category = ''Food'',
         e_subcategory = [], e_note = ''lunch'', e_created_at = ''2024-01-15T13:00:00+00:00''\<rparr>,
        \<lparr>e_id = 2, e_date = ''2024-02-01'', e_amount = 42, e_category = ''Travel'',
         e_subcategory = ''bus'', e_note = [], e_created_at = ''2024-02-01T08:00:00+00:00''\<rparr>,
        \<lparr>e_id = 3, e_date = ''2024-01-15'', e_amount = 5, e_category = ''Food'',
         e_subcategory = [], e_note = [], e_created_at = ''2024-02-02T09:00:00+00:00''\<rparr>]
 \<and> requests (snd (update_expense execute example_store 2 None (Some 42) None None None))
     = [Update ''expenses_test'' [(''amount'', Float 42)] [Eq ''id'' (Integer 2)]]"
proof -
  have h: "(None :: string option) \<noteq> None \<or> Some (42 :: real) \<noteq> None
             \<or> (None :: string option) \<noteq> None \<or> (None :: string option) \<noteq> None
             \<or> (None :: string option) \<noteq> None"
    by simp
  have f: "fault example_store = None"
    by (simp add: example_store_def)
  have r: "requests (snd (update_expense execute example_store 2 None (Some 42) None None None))
     = [Update ''expenses_test'' [(''amount'', Float 42)] [Eq ''id'' (Integer 2)]]"
    by (simp add: op_defs update_data_def example_store_def
          store_defs)
  from update_touches_supplied_fields [OF h, of example_store 2] f r show ?thesis
    by (simp add: example_store_def)
qed

section \<open>Summarizing\<close>



end
